theory Spec2Isabelle
  imports
    Main
    "HOL-Library.Multiset"
    "HOL-Library.Char_ord"
    "HOL-Library.List_Lexorder"
begin

section \<open>Calendar aggregator: the \<open>/events\<close> and \<open>/wall\<close> handlers\<close>

text \<open>
  The development embeds the two request handlers of the calendar aggregator
  (\<^verbatim>\<open>app.get("/events", ...)\<close> of \<^verbatim>\<open>server.js\<close> and \<^verbatim>\<open>app.get("/wall", ...)\<close> of the
  later revision of the same file) together with \<^verbatim>\<open>formatEventTime\<close>.

  JavaScript values are modelled as follows. A property that may be \<^verbatim>\<open>undefined\<close> is an
  \<open>option\<close> (\<open>None\<close> is \<^verbatim>\<open>undefined\<close>); strings are \<open>string\<close>; \<^verbatim>\<open>x || d\<close> on a string
  property picks \<open>d\<close> when \<open>x\<close> is \<^verbatim>\<open>undefined\<close> or the empty string. The \<^verbatim>\<open>days\<close> query
  parameter, whose characters \<^verbatim>\<open>parseInt\<close> inspects, is the list of its UTF-16 code units.
  A number is a \<open>js_number\<close>: \<^verbatim>\<open>NaN\<close>, an infinity, or an integer that a double holds.
  A luxon \<^verbatim>\<open>DateTime\<close> in the configured zone \<^verbatim>\<open>TZ\<close> is determined by its instant, so a
  valid one is an \<open>int\<close> (epoch milliseconds) and an invalid one is \<open>None\<close>; the request
  time is a valid one. The configuration readers
  \<^verbatim>\<open>getJwtClient\<close> and \<^verbatim>\<open>getCalendarIds\<close> are outside the modelled slice: the handlers
  are modelled from a successfully read configuration (a valid zone, a list of calendar ids).
\<close>

subsection \<open>Provider records and normalised events\<close>

text \<open>The \<^verbatim>\<open>start\<close> / \<^verbatim>\<open>end\<close> object of a provider event: \<^verbatim>\<open>{dateTime?, date?}\<close>.\<close>

record raw_time =
  dateTime :: "string option"
  date :: "string option"

text \<open>A provider event, with the properties the handlers read.\<close>

record raw_event =
  r_id :: "string option"
  r_summary :: "string option"
  r_location :: "string option"
  r_description :: "string option"
  r_start :: "raw_time option"
  r_end :: "raw_time option"

text \<open>The object built by the \<^verbatim>\<open>items.map\<close> callback of \<^verbatim>\<open>/events\<close>.\<close>

record event =
  sourceCalendarId :: string
  ev_id :: string
  title :: string
  ev_location :: string
  ev_description :: string
  allDay :: bool
  ev_start :: "string option"
  ev_end :: "string option"

text \<open>The object built by the \<^verbatim>\<open>items.map\<close> callback of \<^verbatim>\<open>/wall\<close>.\<close>

record wall_event =
  w_sourceCalendarId :: string
  w_id :: string
  w_title :: string
  w_allDay :: bool
  w_start :: "string option"
  w_end :: "string option"
  displayTime :: string

subsection \<open>JavaScript operators on optional strings\<close>

text \<open>\<^verbatim>\<open>Boolean(x)\<close> for a string-or-undefined \<open>x\<close>.\<close>

fun truthy :: "string option \<Rightarrow> bool" where
  "truthy None = False"
| "truthy (Some s) = (s \<noteq> [])"

text \<open>\<^verbatim>\<open>x || y\<close> where both sides are string-or-undefined.\<close>

definition js_or :: "string option \<Rightarrow> string option \<Rightarrow> string option" where
  "js_or x y = (if truthy x then x else y)"

text \<open>\<^verbatim>\<open>x || "literal"\<close>: the right side is a string, so is the result.\<close>

definition or_default :: "string option \<Rightarrow> string \<Rightarrow> string" where
  "or_default x d = (case x of None \<Rightarrow> d | Some s \<Rightarrow> if s = [] then d else s)"

text \<open>Interpolation \<^verbatim>\<open>${x}\<close> in a template literal.\<close>

fun interpolate :: "string option \<Rightarrow> string" where
  "interpolate None = ''undefined''"
| "interpolate (Some s) = s"

text \<open>\<^verbatim>\<open>e.start?.dateTime\<close> and \<^verbatim>\<open>e.start?.date\<close>: \<^verbatim>\<open>undefined\<close> when the object is missing.\<close>

definition opt_dateTime :: "raw_time option \<Rightarrow> string option" where
  "opt_dateTime t = (case t of None \<Rightarrow> None | Some v \<Rightarrow> dateTime v)"

definition opt_date :: "raw_time option \<Rightarrow> string option" where
  "opt_date t = (case t of None \<Rightarrow> None | Some v \<Rightarrow> date v)"

subsection \<open>Normalisation in \<open>/events\<close>\<close>

text \<open>
  \<^verbatim>\<open>const start = e.start?.dateTime || e.start?.date;\<close> (and the same for \<^verbatim>\<open>end\<close>).
\<close>

definition pick_time :: "raw_time option \<Rightarrow> string option" where
  "pick_time t = js_or (opt_dateTime t) (opt_date t)"

text \<open>The callback \<^verbatim>\<open>(e) => { ... return {sourceCalendarId: calendarId, ...}; }\<close>.\<close>

definition normalize :: "string \<Rightarrow> raw_event \<Rightarrow> event" where
  "normalize calendarId e =
     \<lparr> sourceCalendarId = calendarId,
       ev_id = calendarId @ '':'' @ interpolate (r_id e),
       title = or_default (r_summary e) ''(no title)'',
       ev_location = or_default (r_location e) [],
       ev_description = or_default (r_description e) [],
       allDay = truthy (opt_date (r_start e)),
       ev_start = pick_time (r_start e),
       ev_end = pick_time (r_end e) \<rparr>"

subsection \<open>The runtime the handlers call\<close>

text \<open>
  Library operations that the handlers call and that are not part of the repository are
  parameters of the model, for the configured zone \<^verbatim>\<open>TZ\<close>:
  \<^item> \<open>fromISO s\<close> is \<^verbatim>\<open>DateTime.fromISO(s, { zone: TZ })\<close>: \<open>None\<close> when the result is
    not \<^verbatim>\<open>isValid\<close> (luxon answers an invalid \<^verbatim>\<open>DateTime\<close> for \<^verbatim>\<open>undefined\<close> too);
  \<^item> \<open>toISODate t\<close> is \<^verbatim>\<open>dt.toISODate()\<close>, the calendar date of the instant in \<^verbatim>\<open>TZ\<close>;
  \<^item> \<open>toFormat t f\<close> is \<^verbatim>\<open>dt.toFormat(f)\<close> in \<^verbatim>\<open>TZ\<close>;
  \<^item> \<open>plus_days t n\<close> is \<^verbatim>\<open>dt.plus({ days: n })\<close> for an integer \<open>n\<close>: \<open>None\<close> when the
    result is an invalid \<^verbatim>\<open>DateTime\<close> (the shifted time is out of luxon's range), in which
    case \<^verbatim>\<open>toUTC().toISO()\<close> is \<^verbatim>\<open>null\<close>;
  \<^item> \<open>plus_infinity t negative\<close> is \<^verbatim>\<open>dt.plus({ days: Infinity })\<close>, or with
    \<^verbatim>\<open>-Infinity\<close> when \<open>negative\<close>: it throws (\<open>Inl\<close> the message) or answers as
    \<open>plus_days\<close> does;
  \<^item> \<open>localeCompare a b\<close> is \<^verbatim>\<open>a.localeCompare(b)\<close>, the collation of the runtime.
\<close>

record runtime =
  fromISO :: "string option \<Rightarrow> int option"
  toISODate :: "int \<Rightarrow> string"
  toFormat :: "int \<Rightarrow> string \<Rightarrow> string"
  plus_days :: "int \<Rightarrow> int \<Rightarrow> int option"
  plus_infinity :: "int \<Rightarrow> bool \<Rightarrow> string + int option"
  localeCompare :: "string \<Rightarrow> string \<Rightarrow> int"

subsection \<open>The \<open>days\<close> parameter\<close>

text \<open>A JavaScript number that holds the result of \<^verbatim>\<open>parseInt\<close>.\<close>

datatype js_number = NaN | Pos_infinity | Neg_infinity | Num int

text \<open>
  The conversion of a mathematical integer to a double, rounding to the nearest double
  with ties to the even significand: an integer below \<open>2^53\<close> is kept, a longer one keeps
  its 53 leading bits, and a result of \<open>2^1024\<close> or more is an infinity.
  \<open>mantissa_shift m\<close> is the number of low bits that do not fit.
\<close>

function mantissa_shift :: "int \<Rightarrow> nat" where
  "mantissa_shift m = (if m < 2 ^ 53 then 0 else Suc (mantissa_shift (m div 2)))"
  by pat_completeness auto
termination
proof (relation "measure nat")
  show "wf (measure nat)" by simp
next
  fix m :: int
  assume "\<not> m < 2 ^ 53"
  then have "0 < m" by simp
  then have "m div 2 < m" by simp
  with \<open>0 < m\<close> show "(m div 2, m) \<in> measure nat" by simp
qed

definition round_to_double :: "int \<Rightarrow> js_number" where
  "round_to_double n =
     (let m = \<bar>n\<bar>;
          e = mantissa_shift m;
          q = m div 2 ^ e;
          r = m mod 2 ^ e;
          q' = (if 2 ^ e < 2 * r \<or> (2 * r = 2 ^ e \<and> odd q) then q + 1 else q);
          v = q' * 2 ^ e
      in if 2 ^ 1024 \<le> v then (if n < 0 then Neg_infinity else Pos_infinity)
         else Num (if n < 0 then - v else v))"

text \<open>
  \<^verbatim>\<open>parseInt(s, 10)\<close> as ECMAScript defines it, on the UTF-16 code units of \<open>s\<close>: leading
  white space (\<^verbatim>\<open>StrWhiteSpaceChar\<close>: the white space and line terminator code points of
  the language) is dropped, one sign is read, the longest run of decimal digits is the
  value, and no digit at all gives \<^verbatim>\<open>NaN\<close>. The value is converted to a double.
\<close>

definition is_space :: "int \<Rightarrow> bool" where
  "is_space c =
     (c \<in> {9, 10, 11, 12, 13, 32, 160, 5760, 8232, 8233, 8239, 8287, 12288, 65279}
      \<or> (8192 \<le> c \<and> c \<le> 8202))"

definition is_digit :: "int \<Rightarrow> bool" where
  "is_digit c = (48 \<le> c \<and> c \<le> 57)"

definition digit_val :: "int \<Rightarrow> int" where
  "digit_val c = c - 48"

definition parseInt :: "int list \<Rightarrow> js_number" where
  "parseInt s =
     (let t = dropWhile is_space s;
          negative = (case t of [] \<Rightarrow> False | c # _ \<Rightarrow> c = 45);
          u = (case t of [] \<Rightarrow> [] | c # r \<Rightarrow> if c = 45 \<or> c = 43 then r else t);
          z = takeWhile is_digit u
      in if z = [] then NaN
         else round_to_double
                ((if negative then - 1 else 1) * foldl (\<lambda>a c. 10 * a + digit_val c) 0 z))"

text \<open>\<^verbatim>\<open>Math.min(x, cap)\<close> for an integer \<open>cap\<close>.\<close>

fun math_min :: "js_number \<Rightarrow> int \<Rightarrow> js_number" where
  "math_min NaN cap = NaN"
| "math_min Pos_infinity cap = Num cap"
| "math_min Neg_infinity cap = Neg_infinity"
| "math_min (Num n) cap = Num (min n cap)"

text \<open>The UTF-16 code units of a text of ASCII characters, such as a literal of the source.\<close>

definition code_units :: "string \<Rightarrow> int list" where
  "code_units s = map of_char s"

text \<open>
  \<^verbatim>\<open>Math.min(parseInt(req.query.days || dflt, 10), cap)\<close>, for a query parameter that is a
  string or missing.
\<close>

definition requested_days :: "int list option \<Rightarrow> string \<Rightarrow> int \<Rightarrow> js_number" where
  "requested_days q dflt cap =
     math_min
       (parseInt (case q of None \<Rightarrow> code_units dflt
                  | Some s \<Rightarrow> if s = [] then code_units dflt else s))
       cap"

text \<open>
  \<^verbatim>\<open>now.plus({ days })\<close>: luxon throws on a \<^verbatim>\<open>NaN\<close> amount, and the \<^verbatim>\<open>catch\<close> of the handler
  answers the message.
\<close>

definition window_end :: "runtime \<Rightarrow> int \<Rightarrow> js_number \<Rightarrow> string + int option" where
  "window_end rt now d =
     (case d of
        NaN \<Rightarrow> Inl ''Invalid unit value NaN''
      | Pos_infinity \<Rightarrow> plus_infinity rt now False
      | Neg_infinity \<Rightarrow> plus_infinity rt now True
      | Num n \<Rightarrow> Inr (plus_days rt now n))"

subsection \<open>\<open>formatEventTime\<close> and normalisation in \<open>/wall\<close>\<close>

definition formatEventTime :: "runtime \<Rightarrow> string option \<Rightarrow> bool \<Rightarrow> string" where
  "formatEventTime rt startIso isAllDay =
     (if isAllDay then ''All day''
      else case fromISO rt startIso of
             Some dt \<Rightarrow> toFormat rt dt ''h:mm a''
           | None \<Rightarrow> [])"

definition wall_normalize :: "runtime \<Rightarrow> string \<Rightarrow> raw_event \<Rightarrow> wall_event" where
  "wall_normalize rt calendarId e =
     (let start = pick_time (r_start e);
          end' = pick_time (r_end e);
          isAllDay = truthy (opt_date (r_start e))
      in \<lparr> w_sourceCalendarId = calendarId,
           w_id = calendarId @ '':'' @ interpolate (r_id e),
           w_title = or_default (r_summary e) ''(no title)'',
           w_allDay = isAllDay,
           w_start = start,
           w_end = end',
           displayTime = formatEventTime rt start isAllDay \<rparr>)"

subsection \<open>Fetching one calendar\<close>

text \<open>
  What a promise can be rejected with, as far as
  \<^verbatim>\<open>String(r.reason?.message || r.reason || "unknown error")\<close> tells values apart:
  \<^verbatim>\<open>undefined\<close>, a string, or an error object with its \<^verbatim>\<open>name\<close> and \<^verbatim>\<open>message\<close>
  (\<^verbatim>\<open>String\<close> of an error object with an empty message is its name).
\<close>

datatype reason = Reason_undefined | Reason_string string | Reason_error string string

fun error_text :: "reason \<Rightarrow> string" where
  "error_text Reason_undefined = ''unknown error''"
| "error_text (Reason_string s) = (if s = [] then ''unknown error'' else s)"
| "error_text (Reason_error name msg) = (if msg \<noteq> [] then msg else name)"

text \<open>
  The outcome of \<^verbatim>\<open>await calendar.events.list({...})\<close> followed by \<^verbatim>\<open>resp.data.items\<close>:
  the callback throws (a rejected call, or a response without \<^verbatim>\<open>data\<close>), or it reads
  \<^verbatim>\<open>items\<close>, which may be missing.
\<close>

datatype api_response =
    rejects: Api_rejects (api_reason: reason)
  | resolves: Api_resolves (api_items: "raw_event list option")

type_synonym calendar_client = "string \<Rightarrow> int \<Rightarrow> int option \<Rightarrow> api_response"

datatype 'a settled =
    is_fulfilled: Fulfilled (settled_value: 'a)
  | is_rejected: Rejected (settled_reason: reason)

record fetched =
  f_calendarId :: string
  f_events :: "event list"

text \<open>\<^verbatim>\<open>resp.data.items || []\<close>\<close>

definition items_or_empty :: "raw_event list option \<Rightarrow> raw_event list" where
  "items_or_empty items = (case items of None \<Rightarrow> [] | Some xs \<Rightarrow> xs)"

text \<open>The async callback of \<^verbatim>\<open>/events\<close>, from its call to the settled state of its promise.\<close>

definition fetch_events ::
  "calendar_client \<Rightarrow> int \<Rightarrow> int option \<Rightarrow> string \<Rightarrow> fetched settled" where
  "fetch_events list_events tMin tMax calendarId =
     (case list_events calendarId tMin tMax of
        Api_rejects r \<Rightarrow> Rejected r
      | Api_resolves items \<Rightarrow>
          Fulfilled \<lparr> f_calendarId = calendarId,
                      f_events = map (normalize calendarId) (items_or_empty items) \<rparr>)"

text \<open>The async callback of \<^verbatim>\<open>/wall\<close>, which returns the event array itself.\<close>

definition fetch_wall ::
  "runtime \<Rightarrow> calendar_client \<Rightarrow> int \<Rightarrow> int option \<Rightarrow> string \<Rightarrow> wall_event list settled" where
  "fetch_wall rt list_events tMin tMax calendarId =
     (case list_events calendarId tMin tMax of
        Api_rejects r \<Rightarrow> Rejected r
      | Api_resolves items \<Rightarrow>
          Fulfilled (map (wall_normalize rt calendarId) (items_or_empty items)))"

subsection \<open>\<open>Promise.allSettled\<close>\<close>

text \<open>
  \<^verbatim>\<open>Promise.allSettled\<close> keeps one slot per input promise. When the promise at index \<open>i\<close>
  settles, its result is stored in slot \<open>i\<close>; when no slot is empty any more, the combined
  promise resolves with the slots. \<open>ps\<close> lists, per index, how each promise settles;
  \<open>order\<close> lists the indices in the order in which the promises settle (the completion
  order of the concurrent fetches). An index that never occurs in \<open>order\<close> is a promise
  that never settles, and then \<^verbatim>\<open>await\<close> never returns: the result is \<open>None\<close>.
\<close>

definition settle :: "'a list \<Rightarrow> 'a option list \<Rightarrow> nat \<Rightarrow> 'a option list" where
  "settle ps slots i = (if i < length ps then slots[i := Some (ps ! i)] else slots)"

definition allSettled :: "'a list \<Rightarrow> nat list \<Rightarrow> 'a list option" where
  "allSettled ps order = those (foldl (settle ps) (replicate (length ps) None) order)"

subsection \<open>Classifying and sorting\<close>

text \<open>
  \<^verbatim>\<open>settled.filter((r) => r.status === "rejected").map((r) => String(...))\<close> and
  \<^verbatim>\<open>settled.filter((r) => r.status === "fulfilled").map((r) => r.value)\<close>.
\<close>

definition errors_of :: "'a settled list \<Rightarrow> string list" where
  "errors_of results = map (\<lambda>r. error_text (settled_reason r)) (filter is_rejected results)"

definition fulfilled_of :: "'a settled list \<Rightarrow> 'a list" where
  "fulfilled_of results = map settled_value (filter is_fulfilled results)"

text \<open>
  \<^verbatim>\<open>Array.prototype.sort(comparefn)\<close> is a stable sort: with a consistent comparator every
  stable sort gives the same array, so insertion sort stands for it. An element goes
  in front of the first element it does not compare greater than.
\<close>

fun insert_by :: "('a \<Rightarrow> 'a \<Rightarrow> int) \<Rightarrow> 'a \<Rightarrow> 'a list \<Rightarrow> 'a list" where
  "insert_by cmp x [] = [x]"
| "insert_by cmp x (y # ys) = (if cmp x y \<le> 0 then x # y # ys else y # insert_by cmp x ys)"

definition sort_by :: "('a \<Rightarrow> 'a \<Rightarrow> int) \<Rightarrow> 'a list \<Rightarrow> 'a list" where
  "sort_by cmp xs = foldr (insert_by cmp) xs []"

text \<open>\<^verbatim>\<open>(a.start || "")\<close>\<close>

definition start_key :: "string option \<Rightarrow> string" where
  "start_key s = or_default s []"

text \<open>\<^verbatim>\<open>(a, b) => (a.start || "").localeCompare(b.start || "")\<close>, for both event shapes.\<close>

definition by_start :: "runtime \<Rightarrow> ('e \<Rightarrow> string option) \<Rightarrow> 'e \<Rightarrow> 'e \<Rightarrow> int" where
  "by_start rt start a b = localeCompare rt (start_key (start a)) (start_key (start b))"

subsection \<open>The \<open>/events\<close> handler\<close>

text \<open>
  \<^verbatim>\<open>timeMin\<close> and \<^verbatim>\<open>timeMax\<close> are kept as instants; the source prints them with
  \<^verbatim>\<open>toUTC().toISO()\<close>, which is \<^verbatim>\<open>null\<close> (\<open>None\<close>) for an invalid \<^verbatim>\<open>DateTime\<close>.
\<close>

record time_range =
  days :: js_number
  timeMin :: int
  timeMax :: "int option"

record events_response =
  timezone :: string
  calendarsRequested :: "string list"
  calendarsSucceeded :: "string list"
  errors :: "string list"
  ev_range :: time_range
  ev_count :: nat
  events :: "event list"

text \<open>
  The handler, from a request to its response. \<open>Inl msg\<close> is the \<^verbatim>\<open>catch\<close> branch
  (status 500 with \<^verbatim>\<open>{ error: msg }\<close>). \<open>None\<close> is a request that is never answered,
  because a fetch never settles.
\<close>

definition events_handler ::
  "runtime \<Rightarrow> calendar_client \<Rightarrow> string \<Rightarrow> string list \<Rightarrow> int \<Rightarrow> nat list
     \<Rightarrow> int list option \<Rightarrow> (string + events_response) option" where
  "events_handler rt list_events TZ calendarIds now order query_days =
     (let n = requested_days query_days ''30'' 365;
          tMin = now
      in case window_end rt now n of
           Inl msg \<Rightarrow> Some (Inl msg)
         | Inr tMax \<Rightarrow>
             (case allSettled (map (fetch_events list_events tMin tMax) calendarIds) order of
                None \<Rightarrow> None
              | Some results \<Rightarrow>
                  (let errs = errors_of results;
                       fulfilled = fulfilled_of results;
                       evs = sort_by (by_start rt ev_start) (concat (map f_events fulfilled))
                   in Some (Inr \<lparr> timezone = TZ,
                                   calendarsRequested = calendarIds,
                                   calendarsSucceeded = map f_calendarId fulfilled,
                                   errors = errs,
                                   ev_range = \<lparr> days = n, timeMin = tMin, timeMax = tMax \<rparr>,
                                   ev_count = length evs,
                                   events = evs \<rparr>))))"

subsection \<open>The \<open>/wall\<close> handler\<close>

text \<open>
  \<^verbatim>\<open>const startDt = DateTime.fromISO(e.start, { zone: TZ });\<close>
  \<^verbatim>\<open>const startKey = startDt.isValid ? startDt.toISODate() : "";\<close>
\<close>

definition startKey :: "runtime \<Rightarrow> wall_event \<Rightarrow> string" where
  "startKey rt e = (case fromISO rt (w_start e) of Some dt \<Rightarrow> toISODate rt dt | None \<Rightarrow> [])"

text \<open>The \<^verbatim>\<open>for (const e of events)\<close> loop, with the two arrays it pushes to.\<close>

fun partition_loop ::
  "runtime \<Rightarrow> string \<Rightarrow> wall_event list \<Rightarrow> wall_event list \<times> wall_event list
     \<Rightarrow> wall_event list \<times> wall_event list" where
  "partition_loop rt tKey [] (td, up) = (td, up)"
| "partition_loop rt tKey (e # es) (td, up) =
     (if startKey rt e = tKey then partition_loop rt tKey es (td @ [e], up)
      else partition_loop rt tKey es (td, up @ [e]))"

record wall_response =
  w_timezone :: string
  calendars :: "string list"
  w_days :: js_number
  todayKey :: string
  todayCount :: nat
  upcomingCount :: nat
  today :: "wall_event list"
  upcoming :: "wall_event list"
  w_errors :: "string list"

definition wall_handler ::
  "runtime \<Rightarrow> calendar_client \<Rightarrow> string \<Rightarrow> string list \<Rightarrow> int \<Rightarrow> nat list
     \<Rightarrow> int list option \<Rightarrow> (string + wall_response) option" where
  "wall_handler rt list_events TZ calendarIds now order query_days =
     (let n = requested_days query_days ''10'' 60;
          tMin = now
      in case window_end rt now n of
           Inl msg \<Rightarrow> Some (Inl msg)
         | Inr tMax \<Rightarrow>
             (case allSettled (map (fetch_wall rt list_events tMin tMax) calendarIds) order of
                None \<Rightarrow> None
              | Some results \<Rightarrow>
                  (let errs = errors_of results;
                       evs = sort_by (by_start rt w_start) (concat (fulfilled_of results));
                       tKey = toISODate rt now;
                       (td, up) = partition_loop rt tKey evs ([], [])
                   in Some (Inr \<lparr> w_timezone = TZ,
                                   calendars = calendarIds,
                                   w_days = n,
                                   todayKey = tKey,
                                   todayCount = length td,
                                   upcomingCount = length up,
                                   today = td,
                                   upcoming = up,
                                   w_errors = errs \<rparr>))))"

subsection \<open>Vocabulary of the properties and sample inputs\<close>

text \<open>
  A well-formed provider time, as the data model has it: either a date-only string or a
  date-time string, never an empty string and never both.
\<close>

definition wf_time :: "raw_time option \<Rightarrow> bool" where
  "wf_time t =
     (case t of
        None \<Rightarrow> True
      | Some v \<Rightarrow> dateTime v \<noteq> Some [] \<and> date v \<noteq> Some []
                  \<and> (dateTime v = None \<or> date v = None))"

text \<open>
  The calendars whose fetch succeeded and those whose fetch failed, in the order of the
  request, for the time window of the request; the message of a failure; the normalised
  events of one calendar.
\<close>

definition succeeded :: "calendar_client \<Rightarrow> int \<Rightarrow> int option \<Rightarrow> string list \<Rightarrow> string list" where
  "succeeded list_events tMin tMax ids = filter (\<lambda>c. resolves (list_events c tMin tMax)) ids"

definition failed :: "calendar_client \<Rightarrow> int \<Rightarrow> int option \<Rightarrow> string list \<Rightarrow> string list" where
  "failed list_events tMin tMax ids = filter (\<lambda>c. rejects (list_events c tMin tMax)) ids"

definition failure_text :: "calendar_client \<Rightarrow> int \<Rightarrow> int option \<Rightarrow> string \<Rightarrow> string" where
  "failure_text list_events tMin tMax c = error_text (api_reason (list_events c tMin tMax))"

definition normalized_events_of :: "calendar_client \<Rightarrow> int \<Rightarrow> int option \<Rightarrow> string \<Rightarrow> event list" where
  "normalized_events_of list_events tMin tMax c =
     map (normalize c) (items_or_empty (api_items (list_events c tMin tMax)))"

definition wall_events_of ::
  "runtime \<Rightarrow> calendar_client \<Rightarrow> int \<Rightarrow> int option \<Rightarrow> string \<Rightarrow> wall_event list" where
  "wall_events_of rt list_events tMin tMax c =
     map (wall_normalize rt c) (items_or_empty (api_items (list_events c tMin tMax)))"

text \<open>The merged sorted list of the events of the calendars that succeeded.\<close>

definition merged_events ::
  "runtime \<Rightarrow> calendar_client \<Rightarrow> int \<Rightarrow> int option \<Rightarrow> string list \<Rightarrow> event list" where
  "merged_events rt list_events tMin tMax ids =
     sort_by (by_start rt ev_start)
       (concat (map (normalized_events_of list_events tMin tMax)
                    (succeeded list_events tMin tMax ids)))"

definition merged_wall_events ::
  "runtime \<Rightarrow> calendar_client \<Rightarrow> int \<Rightarrow> int option \<Rightarrow> string list \<Rightarrow> wall_event list" where
  "merged_wall_events rt list_events tMin tMax ids =
     sort_by (by_start rt w_start)
       (concat (map (wall_events_of rt list_events tMin tMax)
                    (succeeded list_events tMin tMax ids)))"

text \<open>
  The calendar date of an event's start in \<^verbatim>\<open>TZ\<close> is the calendar date of the request
  time \<open>now\<close> in \<^verbatim>\<open>TZ\<close>; false for a start that does not parse.
\<close>

definition same_calendar_date :: "runtime \<Rightarrow> int \<Rightarrow> wall_event \<Rightarrow> bool" where
  "same_calendar_date rt now e =
     (case fromISO rt (w_start e) of
        None \<Rightarrow> False
      | Some dt \<Rightarrow> toISODate rt dt = toISODate rt now)"

text \<open>
  A collation for running the handlers on examples, after the root collation of ICU
  that backs \<^verbatim>\<open>localeCompare\<close> in node: on the characters of RFC 3339 texts the
  punctuation comes first, in the order hyphen, colon, full stop, plus sign, then the
  digits, then the letters. Two texts compare as the lists of the ranks of their
  characters do. Characters outside RFC 3339 texts are ranked after them, by their code;
  the examples do not use them.
\<close>

definition collation_rank :: "char \<Rightarrow> nat" where
  "collation_rank c =
     (if c = CHR ''-'' then 0
      else if c = CHR '':'' then 1
      else if c = CHR ''.'' then 2
      else if c = CHR ''+'' then 3
      else if 48 \<le> (of_char c :: nat) \<and> (of_char c :: nat) \<le> 57 then of_char c - 44
      else if c = CHR ''T'' then 14
      else if c = CHR ''Z'' then 15
      else 16 + of_char c)"

definition collation_key :: "string \<Rightarrow> nat list" where
  "collation_key s = map collation_rank s"

definition collate :: "string \<Rightarrow> string \<Rightarrow> int" where
  "collate a b =
     (if collation_key a < collation_key b then - 1
      else if collation_key a = collation_key b then 0
      else 1)"

text \<open>
  A small runtime for running the handlers on examples: the zone is UTC, only the texts
  of the examples parse, a day has 86400000 milliseconds, a time is valid up to
  8640000000000000 milliseconds from the epoch, and an infinite amount makes \<open>plus\<close> throw.
\<close>

definition sample_fromISO :: "string option \<Rightarrow> int option" where
  "sample_fromISO s =
     (case s of
        None \<Rightarrow> None
      | Some x \<Rightarrow> map_of [(''2024-03-01'', 1709251200000),
                           (''2024-03-01T09:00:00Z'', 1709283600000),
                           (''2024-03-02T10:30:00Z'', 1709375400000)] x)"

definition sample_toISODate :: "int \<Rightarrow> string" where
  "sample_toISODate t =
     (if t div 86400000 = 19783 then ''2024-03-01''
      else if t div 86400000 = 19784 then ''2024-03-02''
      else ''1970-01-01'')"

definition sample_runtime :: runtime where
  "sample_runtime =
     \<lparr> fromISO = sample_fromISO,
       toISODate = sample_toISODate,
       toFormat = (\<lambda>t f. if t = 1709283600000 then ''9:00 AM'' else ''10:30 AM''),
       plus_days = (\<lambda>t n. if \<bar>t + n * 86400000\<bar> \<le> 8640000000000000
                             then Some (t + n * 86400000) else None),
       plus_infinity = (\<lambda>t negative. Inl ''Invalid unit value NaN''),
       localeCompare = collate \<rparr>"

definition sample_timed :: raw_event where
  "sample_timed =
     \<lparr> r_id = Some ''e1'', r_summary = Some ''Standup'', r_location = None,
       r_description = None,
       r_start = Some \<lparr> dateTime = Some ''2024-03-01T09:00:00Z'', date = None \<rparr>,
       r_end = None \<rparr>"

definition sample_all_day :: raw_event where
  "sample_all_day =
     \<lparr> r_id = Some ''e1'', r_summary = None, r_location = None, r_description = None,
       r_start = Some \<lparr> dateTime = None, date = Some ''2024-03-01'' \<rparr>,
       r_end = Some \<lparr> dateTime = None, date = Some ''2024-03-02'' \<rparr> \<rparr>"

definition sample_undated :: raw_event where
  "sample_undated =
     \<lparr> r_id = Some ''e2'', r_summary = Some ''(no title)'', r_location = None,
       r_description = None, r_start = None, r_end = None \<rparr>"

definition sample_draft :: raw_event where
  "sample_draft =
     \<lparr> r_id = Some ''e3'', r_summary = Some ''Draft'', r_location = None,
       r_description = None,
       r_start = Some \<lparr> dateTime = None, date = None \<rparr>,
       r_end = None \<rparr>"

definition sample_later :: raw_event where
  "sample_later =
     \<lparr> r_id = Some ''e4'', r_summary = Some ''Review'', r_location = Some ''Room 2'',
       r_description = None,
       r_start = Some \<lparr> dateTime = Some ''2024-03-02T10:30:00Z'', date = None \<rparr>,
       r_end = None \<rparr>"

definition sample_paris :: raw_event where
  "sample_paris =
     \<lparr> r_id = Some ''e5'', r_summary = Some ''Paris'', r_location = None,
       r_description = None,
       r_start = Some \<lparr> dateTime = Some ''2024-03-01T09:00:00+01:00'', date = None \<rparr>,
       r_end = None \<rparr>"

definition sample_new_york :: raw_event where
  "sample_new_york =
     \<lparr> r_id = Some ''e6'', r_summary = Some ''New York'', r_location = None,
       r_description = None,
       r_start = Some \<lparr> dateTime = Some ''2024-03-01T09:00:00-05:00'', date = None \<rparr>,
       r_end = None \<rparr>"

text \<open>
  A provider with three calendars: \<open>A\<close> holds two timed events and an undated one, \<open>B\<close>
  an all-day event and an undated one, \<open>C\<close> two events at nine o'clock in zones east and
  west of Greenwich, in the order of their start times; every other calendar is not
  found.
\<close>

definition sample_client :: calendar_client where
  "sample_client c tMin tMax =
     (if c = ''A'' then Api_resolves (Some [sample_timed, sample_undated, sample_later])
      else if c = ''B'' then Api_resolves (Some [sample_all_day, sample_draft])
      else if c = ''C'' then Api_resolves (Some [sample_paris, sample_new_york])
      else Api_rejects (Reason_error ''Error'' (''Not Found: '' @ c)))"

text \<open>
  A request for four calendars, of which \<open>X\<close> and \<open>Y\<close> are not found, at
  2024-03-01T09:00:00Z; the fetches complete in the reverse of the request order, or in
  a mixed order.
\<close>

definition sample_ids :: "string list" where
  "sample_ids = [''X'', ''A'', ''Y'', ''B'']"

definition sample_now :: int where
  "sample_now = 1709283600000"

definition sample_order :: "nat list" where
  "sample_order = [3, 2, 1, 0]"

definition sample_mixed_order :: "nat list" where
  "sample_mixed_order = [1, 3, 0, 2]"

text \<open>A request for the calendar \<open>C\<close> alone, and two negative \<open>days\<close> parameters.\<close>

definition sample_offset_ids :: "string list" where
  "sample_offset_ids = [''C'']"

definition sample_single_order :: "nat list" where
  "sample_single_order = [0]"



section \<open>Properties\<close>

subsection \<open>Auxiliary facts\<close>

lemma truthy_iff: "truthy x \<longleftrightarrow> (\<exists>s. x = Some s \<and> s \<noteq> [])"
  by (cases x) simp_all

lemma pick_time_cases:
  "pick_time t =
     (case t of
        None \<Rightarrow> None
      | Some v \<Rightarrow> if truthy (dateTime v) then dateTime v else date v)"
  by (simp add: pick_time_def js_or_def opt_dateTime_def opt_date_def split: option.splits)

lemma pick_time_wf:
  assumes "wf_time t"
  shows "pick_time t =
     (case t of
        None \<Rightarrow> None
      | Some v \<Rightarrow> (case dateTime v of Some x \<Rightarrow> Some x | None \<Rightarrow> date v))"
  using assms by (auto simp: pick_time_cases wf_time_def split: option.splits)

lemma takeWhile_until_sep:
  "sep \<notin> set a \<Longrightarrow> takeWhile (\<lambda>ch. ch \<noteq> sep) (a @ sep # x) = a"
  by (induction a) auto

lemma append_sep_inject:
  assumes "sep \<notin> set a" and "sep \<notin> set b" and "a @ sep # x = b @ sep # y"
  shows "a = b"
proof -
  have "a = takeWhile (\<lambda>ch. ch \<noteq> sep) (a @ sep # x)"
    using assms(1) by (simp add: takeWhile_until_sep)
  also have "\<dots> = takeWhile (\<lambda>ch. ch \<noteq> sep) (b @ sep # y)"
    using assms(3) by simp
  also have "\<dots> = b"
    using assms(2) by (simp add: takeWhile_until_sep)
  finally show ?thesis .
qed

lemma length_settle: "length (settle ps slots i) = length slots"
  by (simp add: settle_def)

lemma length_foldl_settle: "length (foldl (settle ps) slots order) = length slots"
  by (induction order arbitrary: slots) (simp_all add: length_settle)

lemma nth_foldl_settle:
  "length slots = length ps \<Longrightarrow> i < length ps \<Longrightarrow>
   foldl (settle ps) slots order ! i = (if i \<in> set order then Some (ps ! i) else slots ! i)"
proof (induction order arbitrary: slots)
  case Nil
  then show ?case by simp
next
  case (Cons a order)
  have len: "length (settle ps slots a) = length ps"
    using Cons.prems(1) by (simp add: length_settle)
  have here: "settle ps slots a ! i = (if a = i then Some (ps ! i) else slots ! i)"
    using Cons.prems by (auto simp: settle_def)
  show ?case
    using Cons.IH [OF len Cons.prems(2)] here by auto
qed

lemma those_map_Some: "those (map Some xs) = Some xs"
  by (induction xs) simp_all

lemma those_None: "None \<in> set xs \<Longrightarrow> those xs = None"
  by (induction xs) (auto split: option.splits)

text \<open>
  The barrier: once every promise has settled, \<open>allSettled\<close> answers the results in the
  order of the input, whatever the order of completion; before that it does not answer.
\<close>

lemma allSettled_complete:
  assumes "{..<length ps} \<subseteq> set order"
  shows "allSettled ps order = Some ps"
proof -
  let ?slots = "foldl (settle ps) (replicate (length ps) None) order"
  have "?slots = map Some ps"
  proof (rule nth_equalityI)
    show "length ?slots = length (map Some ps)"
      by (simp add: length_foldl_settle)
  next
    fix i assume "i < length ?slots"
    then have i: "i < length ps" by (simp add: length_foldl_settle)
    with assms have "i \<in> set order" by auto
    with i show "?slots ! i = map Some ps ! i"
      by (simp add: nth_foldl_settle)
  qed
  then show ?thesis by (simp add: allSettled_def those_map_Some)
qed

lemma allSettled_pending:
  assumes "i < length ps" and "i \<notin> set order"
  shows "allSettled ps order = None"
proof -
  let ?slots = "foldl (settle ps) (replicate (length ps) None) order"
  have "?slots ! i = None" using assms by (simp add: nth_foldl_settle)
  moreover have "i < length ?slots" using assms by (simp add: length_foldl_settle)
  ultimately have "None \<in> set ?slots" by (metis nth_mem)
  then show ?thesis by (simp add: allSettled_def those_None)
qed

lemma allSettled_Some:
  assumes "allSettled ps order = Some rs"
  shows "rs = ps"
proof (cases "{..<length ps} \<subseteq> set order")
  case True
  with assms show ?thesis by (simp add: allSettled_complete)
next
  case False
  then obtain i where "i < length ps" "i \<notin> set order" by auto
  with assms show ?thesis by (simp add: allSettled_pending)
qed

lemma mset_insert_by: "mset (insert_by cmp x xs) = add_mset x (mset xs)"
  by (induction xs) simp_all

lemma mset_sort_by: "mset (sort_by cmp xs) = mset xs"
  by (induction xs) (simp_all add: sort_by_def mset_insert_by)

lemma set_insert_by: "set (insert_by cmp x xs) = insert x (set xs)"
  by (induction xs) auto

lemma set_sort_by: "set (sort_by cmp xs) = set xs"
  using mset_sort_by [of cmp xs] by (metis set_mset_mset)

text \<open>
  With a comparator that is total and transitive on what it compares, the sorted array
  is ordered by the comparator.
\<close>

lemma sorted_wrt_insert_by:
  assumes total: "\<And>a b. cmp a b \<le> 0 \<or> cmp b a \<le> 0"
    and trans: "\<And>a b c. cmp a b \<le> 0 \<Longrightarrow> cmp b c \<le> 0 \<Longrightarrow> cmp a c \<le> 0"
  shows "sorted_wrt (\<lambda>a b. cmp a b \<le> 0) xs
    \<Longrightarrow> sorted_wrt (\<lambda>a b. cmp a b \<le> 0) (insert_by cmp x xs)"
proof (induction xs)
  case Nil
  then show ?case by simp
next
  case (Cons y ys)
  show ?case
  proof (cases "cmp x y \<le> 0")
    case True
    with Cons.prems trans show ?thesis by auto
  next
    case False
    with total have "cmp y x \<le> 0" by blast
    with False Cons show ?thesis by (auto simp: set_insert_by)
  qed
qed

lemma sorted_wrt_sort_by:
  assumes "\<And>a b. cmp a b \<le> 0 \<or> cmp b a \<le> 0"
    and "\<And>a b c. cmp a b \<le> 0 \<Longrightarrow> cmp b c \<le> 0 \<Longrightarrow> cmp a c \<le> 0"
  shows "sorted_wrt (\<lambda>a b. cmp a b \<le> 0) (sort_by cmp xs)"
proof (induction xs)
  case Nil
  show ?case by (simp add: sort_by_def)
next
  case (Cons x xs)
  have "sort_by cmp (x # xs) = insert_by cmp x (sort_by cmp xs)"
    by (simp add: sort_by_def)
  with Cons sorted_wrt_insert_by [of cmp, OF assms] show ?case by simp
qed

lemma collate_le: "(collate a b \<le> 0) = (collation_key a \<le> collation_key b)"
  by (auto simp: collate_def)

lemma fulfilled_of_fetch_events:
  "fulfilled_of (map (fetch_events cl a b) ids)
   = map (\<lambda>c. \<lparr> f_calendarId = c, f_events = normalized_events_of cl a b c \<rparr>)
         (succeeded cl a b ids)"
  by (induction ids)
    (auto simp: fulfilled_of_def fetch_events_def succeeded_def normalized_events_of_def
      split: api_response.splits)

lemma errors_of_fetch_events:
  "errors_of (map (fetch_events cl a b) ids) = map (failure_text cl a b) (failed cl a b ids)"
  by (induction ids)
    (auto simp: errors_of_def fetch_events_def failed_def failure_text_def
      split: api_response.splits)

lemma fulfilled_of_fetch_wall:
  "fulfilled_of (map (fetch_wall rt cl a b) ids)
   = map (wall_events_of rt cl a b) (succeeded cl a b ids)"
  by (induction ids)
    (auto simp: fulfilled_of_def fetch_wall_def succeeded_def wall_events_of_def
      split: api_response.splits)

lemma errors_of_fetch_wall:
  "errors_of (map (fetch_wall rt cl a b) ids) = map (failure_text cl a b) (failed cl a b ids)"
  by (induction ids)
    (auto simp: errors_of_def fetch_wall_def failed_def failure_text_def
      split: api_response.splits)

text \<open>The answer of \<open>/events\<close> once every fetch has settled, and the converse.\<close>

lemma events_handler_answer:
  assumes "requested_days q ''30'' 365 = Num n" and "{..<length ids} \<subseteq> set order"
  shows "events_handler rt cl TZ ids now order q =
     Some (Inr \<lparr> timezone = TZ,
       calendarsRequested = ids,
       calendarsSucceeded = succeeded cl now (plus_days rt now n) ids,
       errors = map (failure_text cl now (plus_days rt now n))
                    (failed cl now (plus_days rt now n) ids),
       ev_range = \<lparr> days = Num n, timeMin = now, timeMax = plus_days rt now n \<rparr>,
       ev_count = length (merged_events rt cl now (plus_days rt now n) ids),
       events = merged_events rt cl now (plus_days rt now n) ids \<rparr>)"
proof -
  have "allSettled (map (fetch_events cl now (plus_days rt now n)) ids) order
      = Some (map (fetch_events cl now (plus_days rt now n)) ids)"
    using assms(2) by (simp add: allSettled_complete)
  then show ?thesis
    using assms(1)
    by (simp add: events_handler_def window_end_def Let_def fulfilled_of_fetch_events
        errors_of_fetch_events merged_events_def comp_def)
qed

lemma events_handler_Inr:
  assumes "events_handler rt cl TZ ids now order q = Some (Inr r)"
  shows "\<exists>tMax. events r = merged_events rt cl now tMax ids"
proof -
  let ?n = "requested_days q ''30'' 365"
  from assms obtain tMax where w: "window_end rt now ?n = Inr tMax"
    by (cases "window_end rt now ?n") (auto simp: events_handler_def Let_def)
  let ?ps = "map (fetch_events cl now tMax) ids"
  from assms w obtain rs where rs: "allSettled ?ps order = Some rs"
    by (auto simp: events_handler_def Let_def split: option.splits)
  then have "rs = ?ps" by (rule allSettled_Some)
  with assms w rs have "events r = merged_events rt cl now tMax ids"
    by (auto simp: events_handler_def Let_def fulfilled_of_fetch_events merged_events_def
        comp_def)
  then show ?thesis ..
qed

lemma sorted_merged_events:
  assumes "\<forall>a b. localeCompare rt a b \<le> 0 \<or> localeCompare rt b a \<le> 0"
    and "\<forall>a b c. localeCompare rt a b \<le> 0 \<and> localeCompare rt b c \<le> 0
           \<longrightarrow> localeCompare rt a c \<le> 0"
  shows "sorted_wrt (\<lambda>a b. by_start rt ev_start a b \<le> 0) (merged_events rt cl tMin tMax ids)"
proof -
  have total: "\<And>a b. by_start rt ev_start a b \<le> 0 \<or> by_start rt ev_start b a \<le> 0"
    using assms(1) by (simp add: by_start_def)
  have trans: "\<And>a b c. by_start rt ev_start a b \<le> 0 \<Longrightarrow> by_start rt ev_start b c \<le> 0
      \<Longrightarrow> by_start rt ev_start a c \<le> 0"
    using assms(2) unfolding by_start_def by blast
  show ?thesis
    unfolding merged_events_def by (rule sorted_wrt_sort_by [OF total trans])
qed

text \<open>The loop of \<open>/wall\<close> filters the list twice, keeping its order.\<close>

lemma partition_loop_filter:
  "partition_loop rt k evs (td, up)
   = (td @ filter (\<lambda>e. startKey rt e = k) evs, up @ filter (\<lambda>e. startKey rt e \<noteq> k) evs)"
  by (induction evs arbitrary: td up) simp_all

lemma startKey_today:
  "toISODate rt now \<noteq> [] \<Longrightarrow>
   (startKey rt e = toISODate rt now) = same_calendar_date rt now e"
  by (auto simp: startKey_def same_calendar_date_def split: option.splits)

lemma wall_handler_answer:
  assumes "requested_days q ''10'' 60 = Num n" and "{..<length ids} \<subseteq> set order"
  shows "wall_handler rt cl TZ ids now order q =
     Some (Inr \<lparr> w_timezone = TZ,
       calendars = ids,
       w_days = Num n,
       todayKey = toISODate rt now,
       todayCount = length (filter (\<lambda>e. startKey rt e = toISODate rt now)
                      (merged_wall_events rt cl now (plus_days rt now n) ids)),
       upcomingCount = length (filter (\<lambda>e. startKey rt e \<noteq> toISODate rt now)
                      (merged_wall_events rt cl now (plus_days rt now n) ids)),
       today = filter (\<lambda>e. startKey rt e = toISODate rt now)
                      (merged_wall_events rt cl now (plus_days rt now n) ids),
       upcoming = filter (\<lambda>e. startKey rt e \<noteq> toISODate rt now)
                      (merged_wall_events rt cl now (plus_days rt now n) ids),
       w_errors = map (failure_text cl now (plus_days rt now n))
                      (failed cl now (plus_days rt now n) ids) \<rparr>)"
proof -
  have "allSettled (map (fetch_wall rt cl now (plus_days rt now n)) ids) order
      = Some (map (fetch_wall rt cl now (plus_days rt now n)) ids)"
    using assms(2) by (simp add: allSettled_complete)
  then show ?thesis
    using assms(1)
    by (simp add: wall_handler_def window_end_def Let_def fulfilled_of_fetch_wall
        errors_of_fetch_wall merged_wall_events_def partition_loop_filter)
qed

lemma displayTime_wall_normalize:
  "displayTime (wall_normalize rt c e)
   = formatEventTime rt (w_start (wall_normalize rt c e)) (w_allDay (wall_normalize rt c e))"
  by (simp add: wall_normalize_def Let_def)

lemma merged_wall_displayTime:
  assumes "e \<in> set (merged_wall_events rt cl a b ids)"
  shows "displayTime e = formatEventTime rt (w_start e) (w_allDay e)"
  using assms
  by (auto simp: merged_wall_events_def set_sort_by wall_events_of_def
      displayTime_wall_normalize)


lemma requested_days_absent:
  "requested_days None ''30'' 365 = Num 30" "requested_days None ''10'' 60 = Num 10"
  by code_simp+

text \<open>
  The conversion to a double and the white space of the language: the integer \<open>2^53 + 1\<close>
  is not a double, and a no-break space in front of the digits is skipped.
\<close>

lemma parseInt_rounds:
  "parseInt (code_units ''-9007199254740993'') = Num (- 9007199254740992)"
  by code_simp

lemma parseInt_no_break_space: "parseInt (160 # code_units ''7'') = Num 7"
  by code_simp


text \<open>The sample request, run through both handlers.\<close>

lemma sample_schedule: "{..<length sample_ids} \<subseteq> set sample_order"
  by (auto simp: sample_ids_def sample_order_def)

lemma sample_mixed_schedule: "{..<length sample_ids} \<subseteq> set sample_mixed_order"
  by (auto simp: sample_ids_def sample_mixed_order_def)

lemma sample_events_run:
  "events_handler sample_runtime sample_client ''UTC'' sample_ids sample_now sample_order None
   = Some (Inr \<lparr> timezone = ''UTC'',
        calendarsRequested = [''X'', ''A'', ''Y'', ''B''],
        calendarsSucceeded = [''A'', ''B''],
        errors = [''Not Found: X'', ''Not Found: Y''],
        ev_range = \<lparr> days = Num 30, timeMin = 1709283600000,
                     timeMax = Some 1711875600000 \<rparr>,
        ev_count = 5,
        events = [normalize ''A'' sample_undated, normalize ''B'' sample_draft,
                  normalize ''B'' sample_all_day, normalize ''A'' sample_timed,
                  normalize ''A'' sample_later] \<rparr>)"
  by code_simp

lemma sample_wall_run:
  "wall_handler sample_runtime sample_client ''UTC'' sample_ids sample_now sample_order None
   = Some (Inr \<lparr> w_timezone = ''UTC'',
        calendars = [''X'', ''A'', ''Y'', ''B''],
        w_days = Num 10,
        todayKey = ''2024-03-01'',
        todayCount = 2,
        upcomingCount = 3,
        today = [wall_normalize sample_runtime ''B'' sample_all_day,
                 wall_normalize sample_runtime ''A'' sample_timed],
        upcoming = [wall_normalize sample_runtime ''A'' sample_undated,
                    wall_normalize sample_runtime ''B'' sample_draft,
                    wall_normalize sample_runtime ''A'' sample_later],
        w_errors = [''Not Found: X'', ''Not Found: Y''] \<rparr>)"
  by code_simp

lemma sample_offset_run:
  "events_handler sample_runtime sample_client ''UTC'' sample_offset_ids sample_now
     sample_single_order None
   = Some (Inr \<lparr> timezone = ''UTC'',
        calendarsRequested = [''C''],
        calendarsSucceeded = [''C''],
        errors = [],
        ev_range = \<lparr> days = Num 30, timeMin = 1709283600000,
                     timeMax = Some 1711875600000 \<rparr>,
        ev_count = 2,
        events = [normalize ''C'' sample_new_york, normalize ''C'' sample_paris] \<rparr>)"
  by code_simp

lemma sample_starts:
  "ev_start (normalize ''A'' sample_undated) = None"
  "ev_start (normalize ''B'' sample_draft) = None"
  "ev_start (normalize ''B'' sample_all_day) = Some ''2024-03-01''"
  "ev_start (normalize ''A'' sample_timed) = Some ''2024-03-01T09:00:00Z''"
  "ev_start (normalize ''A'' sample_later) = Some ''2024-03-02T10:30:00Z''"
  "ev_start (normalize ''C'' sample_new_york) = Some ''2024-03-01T09:00:00-05:00''"
  "ev_start (normalize ''C'' sample_paris) = Some ''2024-03-01T09:00:00+01:00''"
  by (simp_all add: normalize_def pick_time_def js_or_def opt_dateTime_def opt_date_def
      sample_undated_def sample_draft_def sample_all_day_def sample_timed_def sample_later_def
      sample_new_york_def sample_paris_def)

lemma sample_compare_total:
  "\<forall>a b. localeCompare sample_runtime a b \<le> 0 \<or> localeCompare sample_runtime b a \<le> 0"
  by (auto simp: sample_runtime_def collate_le)

lemma sample_compare_trans:
  "\<forall>a b c. localeCompare sample_runtime a b \<le> 0 \<and> localeCompare sample_runtime b c \<le> 0
     \<longrightarrow> localeCompare sample_runtime a c \<le> 0"
  by (auto simp: sample_runtime_def collate_le)


lemma sample_today_key: "toISODate sample_runtime sample_now \<noteq> []"
  by (simp add: sample_runtime_def sample_toISODate_def sample_now_def)

subsection \<open>Normalisation\<close>

text \<open>
  Claim C4, as the code has it. \<open>normalize\<close> is a total function: every property of the
  provider event is read from the event object itself or behind \<^verbatim>\<open>?.\<close>, so no input makes
  the callback throw. The title is the placeholder \<open>(no title)\<close> when the summary is
  missing or empty, and it is the summary itself otherwise; so the title reads
  \<open>(no title)\<close> exactly when the summary is missing, empty, or that very text. A missing
  location or description becomes the empty string.
\<close>

theorem normalize_defaults:
  "(r_summary e = None \<or> r_summary e = Some [] \<longrightarrow> title (normalize c e) = ''(no title)'')
   \<and> (\<forall>s. r_summary e = Some s \<and> s \<noteq> [] \<longrightarrow> title (normalize c e) = s)
   \<and> (title (normalize c e) = ''(no title)''
        \<longleftrightarrow> r_summary e = None \<or> r_summary e = Some [] \<or> r_summary e = Some ''(no title)'')
   \<and> (r_location e = None \<longrightarrow> ev_location (normalize c e) = [])
   \<and> (r_description e = None \<longrightarrow> ev_description (normalize c e) = [])"
  by (auto simp: normalize_def or_default_def split: option.splits)

theorem normalize_defaults_witness:
  "r_summary sample_all_day = None
   \<and> r_location sample_all_day = None
   \<and> r_description sample_all_day = None
   \<and> title (normalize ''B'' sample_all_day) = ''(no title)''
   \<and> ev_location (normalize ''B'' sample_all_day) = []
   \<and> ev_description (normalize ''B'' sample_all_day) = []
   \<and> r_summary sample_timed = Some ''Standup''
   \<and> title (normalize ''A'' sample_timed) = ''Standup''"
proof -
  have absent: "r_summary sample_all_day = None" "r_location sample_all_day = None"
    "r_description sample_all_day = None"
    by (simp_all add: sample_all_day_def)
  have present: "r_summary sample_timed = Some ''Standup''"
    by (simp add: sample_timed_def)
  show ?thesis
    using normalize_defaults [of sample_all_day "''B''"]
      normalize_defaults [of sample_timed "''A''"] absent present
    by simp
qed

text \<open>
  Claim C4 as stated fails: an event whose summary is the text \<open>(no title)\<close> has the
  placeholder as its title although its summary is neither missing nor empty.
\<close>

theorem normalize_title_counterexample:
  "title (normalize ''A'' sample_undated) = ''(no title)''
   \<and> r_summary sample_undated \<noteq> None
   \<and> r_summary sample_undated \<noteq> Some []"
  by (simp add: normalize_def or_default_def sample_undated_def)

text \<open>
  Claim C5. For a provider event whose start and end are well formed (a date-only
  string or a date-time string), \<open>allDay\<close> holds exactly when the start carries the
  date-only field and no timestamp, and \<open>start\<close> / \<open>end\<close> are the \<open>dateTime\<close> value
  when there is one, else the \<open>date\<close> value when there is one, else missing.
\<close>

theorem normalize_allDay_start_end:
  assumes "wf_time (r_start e)" and "wf_time (r_end e)"
  shows "(allDay (normalize c e) \<longleftrightarrow>
            (\<exists>t d. r_start e = Some t \<and> date t = Some d \<and> dateTime t = None))
       \<and> ev_start (normalize c e) =
            (case r_start e of
               None \<Rightarrow> None
             | Some t \<Rightarrow> (case dateTime t of Some x \<Rightarrow> Some x | None \<Rightarrow> date t))
       \<and> ev_end (normalize c e) =
            (case r_end e of
               None \<Rightarrow> None
             | Some t \<Rightarrow> (case dateTime t of Some x \<Rightarrow> Some x | None \<Rightarrow> date t))"
proof -
  have "allDay (normalize c e) \<longleftrightarrow>
          (\<exists>t d. r_start e = Some t \<and> date t = Some d \<and> dateTime t = None)"
    using assms(1)
    by (cases "r_start e") (auto simp: normalize_def opt_date_def wf_time_def truthy_iff)
  moreover have "ev_start (normalize c e) = pick_time (r_start e)"
    and "ev_end (normalize c e) = pick_time (r_end e)"
    by (simp_all add: normalize_def)
  ultimately show ?thesis
    using pick_time_wf [OF assms(1)] pick_time_wf [OF assms(2)] by simp
qed

theorem normalize_allDay_start_end_witness:
  "wf_time (r_start sample_all_day) \<and> wf_time (r_end sample_all_day)
   \<and> allDay (normalize ''B'' sample_all_day)
   \<and> ev_start (normalize ''B'' sample_all_day) = Some ''2024-03-01''
   \<and> ev_end (normalize ''B'' sample_all_day) = Some ''2024-03-02''
   \<and> wf_time (r_start sample_timed) \<and> wf_time (r_end sample_timed)
   \<and> \<not> allDay (normalize ''A'' sample_timed)
   \<and> ev_start (normalize ''A'' sample_timed) = Some ''2024-03-01T09:00:00Z''
   \<and> ev_end (normalize ''A'' sample_timed) = None"
proof -
  have d: "wf_time (r_start sample_all_day)" "wf_time (r_end sample_all_day)"
    by (simp_all add: wf_time_def sample_all_day_def)
  have t: "wf_time (r_start sample_timed)" "wf_time (r_end sample_timed)"
    by (simp_all add: wf_time_def sample_timed_def)
  have "r_start sample_all_day = Some \<lparr> dateTime = None, date = Some ''2024-03-01'' \<rparr>"
    and "r_end sample_all_day = Some \<lparr> dateTime = None, date = Some ''2024-03-02'' \<rparr>"
    and "r_start sample_timed = Some \<lparr> dateTime = Some ''2024-03-01T09:00:00Z'', date = None \<rparr>"
    and "r_end sample_timed = None"
    by (simp_all add: sample_all_day_def sample_timed_def)
  then show ?thesis
    using normalize_allDay_start_end [OF d, of "''B''"]
      normalize_allDay_start_end [OF t, of "''A''"] d t
    by simp
qed

text \<open>
  Claim C7, as the code has it. The canonical id is the calendar id, a colon and the
  provider's event id. Two events of different calendars have different canonical ids
  when they share the provider's event id, and also whenever neither calendar id
  contains a colon.
\<close>

theorem canonical_id_distinct:
  assumes "c1 \<noteq> c2"
    and "r_id e1 = r_id e2 \<or> (CHR '':'' \<notin> set c1 \<and> CHR '':'' \<notin> set c2)"
  shows "ev_id (normalize c1 e1) = c1 @ '':'' @ interpolate (r_id e1)
       \<and> ev_id (normalize c2 e2) = c2 @ '':'' @ interpolate (r_id e2)
       \<and> ev_id (normalize c1 e1) \<noteq> ev_id (normalize c2 e2)"
proof -
  have "c1 @ CHR '':'' # interpolate (r_id e1) \<noteq> c2 @ CHR '':'' # interpolate (r_id e2)"
  proof
    assume eq: "c1 @ CHR '':'' # interpolate (r_id e1) = c2 @ CHR '':'' # interpolate (r_id e2)"
    from assms(2) show False
    proof
      assume "r_id e1 = r_id e2"
      with eq have "c1 = c2" by simp
      with assms(1) show False by simp
    next
      assume "CHR '':'' \<notin> set c1 \<and> CHR '':'' \<notin> set c2"
      with eq have "c1 = c2" by (blast intro: append_sep_inject)
      with assms(1) show False by simp
    qed
  qed
  then show ?thesis by (simp add: normalize_def)
qed

theorem canonical_id_distinct_witness:
  "''A'' \<noteq> ''B'' \<and> r_id sample_timed = r_id sample_all_day
   \<and> ev_id (normalize ''A'' sample_timed) = ''A:e1''
   \<and> ev_id (normalize ''B'' sample_all_day) = ''B:e1''
   \<and> ev_id (normalize ''A'' sample_timed) \<noteq> ev_id (normalize ''B'' sample_all_day)"
proof -
  have ne: "''A'' \<noteq> ''B''" by simp
  have ids: "r_id sample_timed = Some ''e1''" "r_id sample_all_day = Some ''e1''"
    by (simp_all add: sample_timed_def sample_all_day_def)
  then have same: "r_id sample_timed = r_id sample_all_day
      \<or> (CHR '':'' \<notin> set ''A'' \<and> CHR '':'' \<notin> set ''B'')"
    by simp
  show ?thesis
    using canonical_id_distinct [OF ne same] ids by simp
qed

text \<open>
  Claim C7 as stated fails when a calendar id contains the separator: the calendars
  \<open>a\<close> and \<open>a:b\<close> are different, and the event \<open>b:c\<close> of the first has the canonical id
  of the event \<open>c\<close> of the second.
\<close>

theorem canonical_id_collision:
  "''a'' \<noteq> ''a:b''
   \<and> ev_id (normalize ''a'' \<lparr> r_id = Some ''b:c'', r_summary = None, r_location = None,
                               r_description = None, r_start = None, r_end = None \<rparr>)
     = ev_id (normalize ''a:b'' \<lparr> r_id = Some ''c'', r_summary = None, r_location = None,
                                   r_description = None, r_start = None, r_end = None \<rparr>)"
  by (simp add: normalize_def)

subsection \<open>Aggregation in \<open>/events\<close>\<close>

text \<open>
  Claim C1. When every fetch has settled the handler answers, and in its answer
  \<open>events\<close> holds exactly the normalised events of the calendars whose fetch succeeded,
  each as often as the provider returned it, and \<open>errors\<close> holds one message per failed
  calendar. A failed calendar adds no event and removes none. The property needs neither
  a non-empty list of calendars nor a failure among them.
\<close>

theorem partial_failure_isolated:
  assumes "requested_days q ''30'' 365 = Num n" and "{..<length ids} \<subseteq> set order"
  shows "\<exists>r. events_handler rt cl TZ ids now order q = Some (Inr r)
     \<and> mset (events r) =
         mset (concat (map (normalized_events_of cl now (plus_days rt now n))
                           (succeeded cl now (plus_days rt now n) ids)))
     \<and> errors r = map (failure_text cl now (plus_days rt now n))
                       (failed cl now (plus_days rt now n) ids)
     \<and> length (errors r) = length (failed cl now (plus_days rt now n) ids)"
  by (simp add: events_handler_answer [OF assms] merged_events_def mset_sort_by)

theorem partial_failure_isolated_witness:
  "requested_days None ''30'' 365 = Num 30
   \<and> {..<length sample_ids} \<subseteq> set sample_order
   \<and> (\<exists>r. events_handler sample_runtime sample_client ''UTC'' sample_ids sample_now
             sample_order None = Some (Inr r)
        \<and> mset (events r) =
            mset [normalize ''A'' sample_timed, normalize ''A'' sample_undated,
                  normalize ''A'' sample_later, normalize ''B'' sample_all_day,
                  normalize ''B'' sample_draft]
        \<and> errors r = [''Not Found: X'', ''Not Found: Y'']
        \<and> length (errors r) = 2)"
proof (intro conjI)
  show "requested_days None ''30'' 365 = Num 30"
    by (rule requested_days_absent)
  show "{..<length sample_ids} \<subseteq> set sample_order"
    by (rule sample_schedule)
  show "\<exists>r. events_handler sample_runtime sample_client ''UTC'' sample_ids sample_now
             sample_order None = Some (Inr r)
        \<and> mset (events r) =
            mset [normalize ''A'' sample_timed, normalize ''A'' sample_undated,
                  normalize ''A'' sample_later, normalize ''B'' sample_all_day,
                  normalize ''B'' sample_draft]
        \<and> errors r = [''Not Found: X'', ''Not Found: Y'']
        \<and> length (errors r) = 2"
    using partial_failure_isolated [OF requested_days_absent(1) sample_schedule,
        of sample_runtime sample_client "''UTC''" sample_now]
    by (auto simp: succeeded_def failed_def failure_text_def normalized_events_of_def
        items_or_empty_def sample_client_def sample_ids_def)
qed

text \<open>
  Claim C2, as the code has it. In an answer of \<open>/events\<close>, each event's start does not
  compare greater than the start of the event after it under \<^verbatim>\<open>localeCompare\<close>, where a
  missing start counts as the empty string; this holds for every \<^verbatim>\<open>localeCompare\<close>
  that is a consistent comparator, that is, total and transitive. The order is the
  collation of the runtime, not the lexicographic order of the strings.
\<close>

theorem events_sorted_by_localeCompare:
  assumes "\<forall>a b. localeCompare rt a b \<le> 0 \<or> localeCompare rt b a \<le> 0"
    and "\<forall>a b c. localeCompare rt a b \<le> 0 \<and> localeCompare rt b c \<le> 0
           \<longrightarrow> localeCompare rt a c \<le> 0"
    and "events_handler rt cl TZ ids now order q = Some (Inr r)"
  shows "\<forall>i. Suc i < length (events r) \<longrightarrow>
           localeCompare rt (start_key (ev_start (events r ! i)))
                            (start_key (ev_start (events r ! Suc i))) \<le> 0"
proof -
  from events_handler_Inr [OF assms(3)] obtain tMax
    where "events r = merged_events rt cl now tMax ids" by auto
  with sorted_merged_events [OF assms(1,2)]
  have "sorted_wrt (\<lambda>a b. by_start rt ev_start a b \<le> 0) (events r)" by simp
  then show ?thesis
    by (auto simp: sorted_wrt_iff_nth_less by_start_def)
qed

theorem events_sorted_by_localeCompare_witness:
  "(\<forall>a b. localeCompare sample_runtime a b \<le> 0 \<or> localeCompare sample_runtime b a \<le> 0)
   \<and> (\<exists>r. events_handler sample_runtime sample_client ''UTC'' sample_offset_ids sample_now
             sample_single_order None = Some (Inr r)
        \<and> Suc 0 < length (events r)
        \<and> map ev_start (events r) =
            [Some ''2024-03-01T09:00:00-05:00'', Some ''2024-03-01T09:00:00+01:00'']
        \<and> localeCompare sample_runtime (start_key (ev_start (events r ! 0)))
                                        (start_key (ev_start (events r ! Suc 0))) \<le> 0)"
  using sample_compare_total
    events_sorted_by_localeCompare [OF sample_compare_total sample_compare_trans
      sample_offset_run, rule_format, of 0]
  by (simp add: sample_offset_run sample_starts)

text \<open>
  Claim C2 as stated fails: of two events at nine o'clock, one with the offset \<open>+01:00\<close>
  and one with \<open>-05:00\<close>, the answer lists the second first, as the collation orders the
  hyphen before the plus sign; in the lexicographic order of the strings the plus sign
  comes first.
\<close>

theorem events_not_lexicographic_counterexample:
  "map_option (map_sum id (\<lambda>r. map (\<lambda>e. start_key (ev_start e)) (events r)))
     (events_handler sample_runtime sample_client ''UTC'' sample_offset_ids sample_now
        sample_single_order None)
   = Some (Inr [''2024-03-01T09:00:00-05:00'', ''2024-03-01T09:00:00+01:00''])
   \<and> \<not> (''2024-03-01T09:00:00-05:00'' \<le> ''2024-03-01T09:00:00+01:00'')"
  by (simp add: sample_offset_run sample_starts start_key_def or_default_def)

text \<open>
  Claim C8, as the code has it. A missing start is compared as the empty string, so an
  event without a start sorts first: no event in front of it in \<open>events\<close> has a start that
  \<^verbatim>\<open>localeCompare\<close> orders after the empty string. This holds for every \<^verbatim>\<open>localeCompare\<close>
  that is a consistent comparator, that is, total and transitive.
\<close>

theorem missing_start_sorts_first:
  assumes "\<forall>a b. localeCompare rt a b \<le> 0 \<or> localeCompare rt b a \<le> 0"
    and "\<forall>a b c. localeCompare rt a b \<le> 0 \<and> localeCompare rt b c \<le> 0
           \<longrightarrow> localeCompare rt a c \<le> 0"
    and "events_handler rt cl TZ ids now order q = Some (Inr r)"
    and "i < j" and "j < length (events r)" and "ev_start (events r ! j) = None"
  shows "localeCompare rt (start_key (ev_start (events r ! i))) [] \<le> 0"
proof -
  from events_handler_Inr [OF assms(3)] obtain tMax
    where "events r = merged_events rt cl now tMax ids" by auto
  with sorted_merged_events [OF assms(1,2)]
  have "sorted_wrt (\<lambda>a b. by_start rt ev_start a b \<le> 0) (events r)" by simp
  with assms(4,5) have "by_start rt ev_start (events r ! i) (events r ! j) \<le> 0"
    by (auto simp: sorted_wrt_iff_nth_less)
  with assms(6) show ?thesis
    by (simp add: by_start_def start_key_def or_default_def)
qed

theorem missing_start_sorts_first_witness:
  "(\<forall>a b. localeCompare sample_runtime a b \<le> 0 \<or> localeCompare sample_runtime b a \<le> 0)
   \<and> (\<exists>r. events_handler sample_runtime sample_client ''UTC'' sample_ids sample_now
             sample_order None = Some (Inr r)
        \<and> (0::nat) < 1 \<and> 1 < length (events r)
        \<and> ev_start (events r ! 1) = None
        \<and> localeCompare sample_runtime (start_key (ev_start (events r ! 0))) [] \<le> 0)"
proof -
  let ?r = "\<lparr> timezone = ''UTC'',
        calendarsRequested = [''X'', ''A'', ''Y'', ''B''],
        calendarsSucceeded = [''A'', ''B''],
        errors = [''Not Found: X'', ''Not Found: Y''],
        ev_range = \<lparr> days = Num 30, timeMin = 1709283600000,
                     timeMax = Some 1711875600000 \<rparr>,
        ev_count = 5,
        events = [normalize ''A'' sample_undated, normalize ''B'' sample_draft,
                  normalize ''B'' sample_all_day, normalize ''A'' sample_timed,
                  normalize ''A'' sample_later] \<rparr>"
  have j: "(0::nat) < 1" "1 < length (events ?r)" by simp_all
  have none: "ev_start (events ?r ! 1) = None"
    by (simp add: sample_starts)
  from missing_start_sorts_first [OF sample_compare_total sample_compare_trans
      sample_events_run j none]
  have "localeCompare sample_runtime (start_key (ev_start (events ?r ! 0))) [] \<le> 0" .
  with sample_compare_total j none show ?thesis
    unfolding sample_events_run by blast
qed

text \<open>
  Claim C8 as stated fails: in the answer to the sample request the two events without a
  start come first, in front of the three events that have one.
\<close>

theorem missing_start_sorts_last_counterexample:
  "map_option (map_sum id (\<lambda>r. map ev_start (events r)))
     (events_handler sample_runtime sample_client ''UTC'' sample_ids sample_now sample_order None)
   = Some (Inr [None, None, Some ''2024-03-01'', Some ''2024-03-01T09:00:00Z'',
                Some ''2024-03-02T10:30:00Z''])"
  by (simp add: sample_events_run sample_starts)

text \<open>
  Claim C9, as the code has it. \<open>calendarsRequested\<close> is the list of calendar ids as
  given. \<open>calendarsSucceeded\<close> and \<open>errors\<close> follow the order of the request as well:
  they list the succeeded calendars and the messages of the failed ones in the order of
  the ids, for every order in which the fetches complete.
\<close>

theorem response_lists_in_request_order:
  assumes "requested_days q ''30'' 365 = Num n" and "{..<length ids} \<subseteq> set order"
  shows "\<exists>r. events_handler rt cl TZ ids now order q = Some (Inr r)
     \<and> calendarsRequested r = ids
     \<and> calendarsSucceeded r = filter (\<lambda>c. resolves (cl c now (plus_days rt now n))) ids
     \<and> errors r = map (failure_text cl now (plus_days rt now n))
                       (filter (\<lambda>c. rejects (cl c now (plus_days rt now n))) ids)"
  by (simp add: events_handler_answer [OF assms] succeeded_def failed_def)

theorem response_lists_in_request_order_witness:
  "requested_days None ''30'' 365 = Num 30
   \<and> {..<length sample_ids} \<subseteq> set sample_order
   \<and> {..<length sample_ids} \<subseteq> set sample_mixed_order
   \<and> (\<exists>r. events_handler sample_runtime sample_client ''UTC'' sample_ids sample_now
             sample_order None = Some (Inr r)
        \<and> calendarsRequested r = [''X'', ''A'', ''Y'', ''B'']
        \<and> calendarsSucceeded r = [''A'', ''B'']
        \<and> errors r = [''Not Found: X'', ''Not Found: Y''])
   \<and> (\<exists>r. events_handler sample_runtime sample_client ''UTC'' sample_ids sample_now
             sample_mixed_order None = Some (Inr r)
        \<and> calendarsRequested r = [''X'', ''A'', ''Y'', ''B'']
        \<and> calendarsSucceeded r = [''A'', ''B'']
        \<and> errors r = [''Not Found: X'', ''Not Found: Y''])"
proof (intro conjI)
  show "requested_days None ''30'' 365 = Num 30"
    by (rule requested_days_absent)
  show "{..<length sample_ids} \<subseteq> set sample_order"
    by (rule sample_schedule)
  show "{..<length sample_ids} \<subseteq> set sample_mixed_order"
    by (rule sample_mixed_schedule)
  show "\<exists>r. events_handler sample_runtime sample_client ''UTC'' sample_ids sample_now
             sample_order None = Some (Inr r)
        \<and> calendarsRequested r = [''X'', ''A'', ''Y'', ''B'']
        \<and> calendarsSucceeded r = [''A'', ''B'']
        \<and> errors r = [''Not Found: X'', ''Not Found: Y'']"
    using response_lists_in_request_order [OF requested_days_absent(1) sample_schedule,
        of sample_runtime sample_client "''UTC''" sample_now]
    by (simp add: failure_text_def sample_client_def sample_ids_def)
  show "\<exists>r. events_handler sample_runtime sample_client ''UTC'' sample_ids sample_now
             sample_mixed_order None = Some (Inr r)
        \<and> calendarsRequested r = [''X'', ''A'', ''Y'', ''B'']
        \<and> calendarsSucceeded r = [''A'', ''B'']
        \<and> errors r = [''Not Found: X'', ''Not Found: Y'']"
    using response_lists_in_request_order [OF requested_days_absent(1) sample_mixed_schedule,
        of sample_runtime sample_client "''UTC''" sample_now]
    by (simp add: failure_text_def sample_client_def sample_ids_def)
qed

text \<open>
  Claim C9 as stated fails: the fetches of the sample request complete in the order
  \<open>B\<close>, \<open>Y\<close>, \<open>A\<close>, \<open>X\<close>, and the answer lists \<open>A\<close> before \<open>B\<close> and the failure of \<open>X\<close>
  before the failure of \<open>Y\<close>.
\<close>

theorem completion_order_counterexample:
  "sample_ids = [''X'', ''A'', ''Y'', ''B'']
   \<and> sample_order = [3, 2, 1, 0]
   \<and> map_option (map_sum id (\<lambda>r. (calendarsSucceeded r, errors r)))
       (events_handler sample_runtime sample_client ''UTC'' sample_ids sample_now sample_order None)
     = Some (Inr ([''A'', ''B''], [''Not Found: X'', ''Not Found: Y'']))"
proof (intro conjI)
  show "sample_ids = [''X'', ''A'', ''Y'', ''B'']"
    by (rule sample_ids_def)
  show "sample_order = [3, 2, 1, 0]"
    by (rule sample_order_def)
  show "map_option (map_sum id (\<lambda>r. (calendarsSucceeded r, errors r)))
       (events_handler sample_runtime sample_client ''UTC'' sample_ids sample_now sample_order None)
     = Some (Inr ([''A'', ''B''], [''Not Found: X'', ''Not Found: Y'']))"
    by (simp add: sample_events_run)
qed

subsection \<open>The wall view\<close>

text \<open>
  Claim C3. In an answer of \<open>/wall\<close>, \<open>today\<close> holds the events of the merged sorted list
  whose start has the calendar date of the request time, and \<open>upcoming\<close> holds all the
  others, among them every event whose start does not parse; the two buckets together
  hold each event of the list exactly once. The date text of the request time is not
  empty, as no ISO date is.
\<close>

theorem wall_partition_by_date:
  assumes "requested_days q ''10'' 60 = Num n" and "{..<length ids} \<subseteq> set order"
    and "toISODate rt now \<noteq> []"
  shows "\<exists>w. wall_handler rt cl TZ ids now order q = Some (Inr w)
     \<and> today w = filter (same_calendar_date rt now)
                   (merged_wall_events rt cl now (plus_days rt now n) ids)
     \<and> upcoming w = filter (\<lambda>e. \<not> same_calendar_date rt now e)
                      (merged_wall_events rt cl now (plus_days rt now n) ids)
     \<and> mset (today w) + mset (upcoming w)
         = mset (merged_wall_events rt cl now (plus_days rt now n) ids)
     \<and> (\<forall>e \<in> set (merged_wall_events rt cl now (plus_days rt now n) ids).
           (e \<in> set (today w) \<longleftrightarrow> same_calendar_date rt now e)
         \<and> (e \<in> set (upcoming w) \<longleftrightarrow> \<not> same_calendar_date rt now e)
         \<and> (fromISO rt (w_start e) = None \<longrightarrow> e \<in> set (upcoming w)))"
proof -
  have unparsed: "\<And>e. fromISO rt (w_start e) = None \<Longrightarrow> \<not> same_calendar_date rt now e"
    by (simp add: same_calendar_date_def)
  show ?thesis
    using unparsed
    by (simp add: wall_handler_answer [OF assms(1,2)] startKey_today [OF assms(3)])
qed

theorem wall_partition_by_date_witness:
  "requested_days None ''10'' 60 = Num 10
   \<and> {..<length sample_ids} \<subseteq> set sample_order
   \<and> toISODate sample_runtime sample_now \<noteq> []
   \<and> (\<exists>w. wall_handler sample_runtime sample_client ''UTC'' sample_ids sample_now sample_order
             None = Some (Inr w)
        \<and> today w = [wall_normalize sample_runtime ''B'' sample_all_day,
                     wall_normalize sample_runtime ''A'' sample_timed]
        \<and> upcoming w = [wall_normalize sample_runtime ''A'' sample_undated,
                        wall_normalize sample_runtime ''B'' sample_draft,
                        wall_normalize sample_runtime ''A'' sample_later]
        \<and> today w = filter (same_calendar_date sample_runtime sample_now) (today w @ upcoming w)
        \<and> upcoming w = filter (\<lambda>e. \<not> same_calendar_date sample_runtime sample_now e)
                          (today w @ upcoming w))"
proof (intro conjI)
  show "requested_days None ''10'' 60 = Num 10"
    by (rule requested_days_absent)
  show "{..<length sample_ids} \<subseteq> set sample_order"
    by (rule sample_schedule)
  show "toISODate sample_runtime sample_now \<noteq> []"
    by (rule sample_today_key)
  from wall_partition_by_date [OF requested_days_absent(2) sample_schedule sample_today_key,
      of sample_client "''UTC''"]
  obtain w where w: "wall_handler sample_runtime sample_client ''UTC'' sample_ids sample_now
        sample_order None = Some (Inr w)"
    and td: "today w = filter (same_calendar_date sample_runtime sample_now)
        (merged_wall_events sample_runtime sample_client sample_now
           (plus_days sample_runtime sample_now 10) sample_ids)"
    and up: "upcoming w = filter (\<lambda>e. \<not> same_calendar_date sample_runtime sample_now e)
        (merged_wall_events sample_runtime sample_client sample_now
           (plus_days sample_runtime sample_now 10) sample_ids)"
    by blast
  from td up have "today w = filter (same_calendar_date sample_runtime sample_now) (today w @ upcoming w)"
    and "upcoming w = filter (\<lambda>e. \<not> same_calendar_date sample_runtime sample_now e) (today w @ upcoming w)"
    by simp_all
  with w show "\<exists>w. wall_handler sample_runtime sample_client ''UTC'' sample_ids sample_now sample_order
             None = Some (Inr w)
        \<and> today w = [wall_normalize sample_runtime ''B'' sample_all_day,
                     wall_normalize sample_runtime ''A'' sample_timed]
        \<and> upcoming w = [wall_normalize sample_runtime ''A'' sample_undated,
                        wall_normalize sample_runtime ''B'' sample_draft,
                        wall_normalize sample_runtime ''A'' sample_later]
        \<and> today w = filter (same_calendar_date sample_runtime sample_now) (today w @ upcoming w)
        \<and> upcoming w = filter (\<lambda>e. \<not> same_calendar_date sample_runtime sample_now e)
                          (today w @ upcoming w)"
    using sample_wall_run by auto
qed

text \<open>
  Claim C6. Every event of an answer of \<open>/wall\<close> has the \<open>displayTime\<close> that
  \<open>formatEventTime\<close> computes from its own start and all-day flag: the label \<open>All day\<close>
  for an all-day event; otherwise \<^verbatim>\<open>toFormat("h:mm a")\<close> of the parsed start in the
  configured zone, or the empty string when the start does not parse. \<open>formatEventTime\<close>
  is total, so computing it does not fail.
\<close>

theorem wall_displayTime:
  assumes "requested_days q ''10'' 60 = Num n" and "{..<length ids} \<subseteq> set order"
  shows "\<exists>w. wall_handler rt cl TZ ids now order q = Some (Inr w)
     \<and> (\<forall>e \<in> set (today w) \<union> set (upcoming w).
           (w_allDay e \<longrightarrow> displayTime e = ''All day'')
         \<and> (\<not> w_allDay e \<longrightarrow>
               (\<forall>dt. fromISO rt (w_start e) = Some dt \<longrightarrow> displayTime e = toFormat rt dt ''h:mm a''))
         \<and> (\<not> w_allDay e \<and> fromISO rt (w_start e) = None \<longrightarrow> displayTime e = []))"
proof -
  have "\<And>e. e \<in> set (merged_wall_events rt cl now (plus_days rt now n) ids) \<Longrightarrow>
           (w_allDay e \<longrightarrow> displayTime e = ''All day'')
         \<and> (\<not> w_allDay e \<longrightarrow>
               (\<forall>dt. fromISO rt (w_start e) = Some dt \<longrightarrow> displayTime e = toFormat rt dt ''h:mm a''))
         \<and> (\<not> w_allDay e \<and> fromISO rt (w_start e) = None \<longrightarrow> displayTime e = [])"
    by (simp add: merged_wall_displayTime formatEventTime_def)
  then show ?thesis
    by (auto simp: wall_handler_answer [OF assms])
qed

theorem wall_displayTime_witness:
  "requested_days None ''10'' 60 = Num 10
   \<and> {..<length sample_ids} \<subseteq> set sample_order
   \<and> (\<exists>w. wall_handler sample_runtime sample_client ''UTC'' sample_ids sample_now sample_order
             None = Some (Inr w)
        \<and> map w_allDay (today w) = [True, False]
        \<and> map displayTime (today w) = [''All day'', ''9:00 AM'']
        \<and> map w_allDay (upcoming w) = [False, False, False]
        \<and> map displayTime (upcoming w) = [[], [], ''10:30 AM''])"
proof (intro conjI)
  show "requested_days None ''10'' 60 = Num 10"
    by (rule requested_days_absent)
  show "{..<length sample_ids} \<subseteq> set sample_order"
    by (rule sample_schedule)
  show "\<exists>w. wall_handler sample_runtime sample_client ''UTC'' sample_ids sample_now sample_order
             None = Some (Inr w)
        \<and> map w_allDay (today w) = [True, False]
        \<and> map displayTime (today w) = [''All day'', ''9:00 AM'']
        \<and> map w_allDay (upcoming w) = [False, False, False]
        \<and> map displayTime (upcoming w) = [[], [], ''10:30 AM'']"
    using wall_displayTime [OF requested_days_absent(2) sample_schedule,
        of sample_runtime sample_client "''UTC''" sample_now]
    unfolding sample_wall_run
    by (simp add: wall_normalize_def formatEventTime_def pick_time_def js_or_def
        opt_dateTime_def opt_date_def sample_runtime_def sample_fromISO_def
        sample_all_day_def sample_timed_def sample_undated_def sample_draft_def sample_later_def)
qed

subsection \<open>The requested number of days\<close>




end
